theory Spec2Isabelle
  imports Main "HOL-Library.Sublist" "HOL-Library.Word"
begin

section \<open>Go values shared by the components\<close>

text \<open>
  The plugin is four Go packages (builder, registry, platform, release) that the Waypoint
  host loads and drives. Every action is a straight line of calls into the Docker SDK, the
  AWS SDK, the Go standard library and the host's terminal UI. The model makes the outside
  world explicit: each external call is answered by a field of an environment record, and
  each action returns, beside its result, the list of external calls it made, in order.

  A Go \<^verbatim>\<open>error\<close> is a value. Three kinds occur: an error produced by an external call
  (opaque to the plugin, named by its message), the result of \<^verbatim>\<open>fmt.Errorf\<close>, and the
  result of \<^verbatim>\<open>status.Errorf\<close> of the gRPC status package. The two formatting calls keep
  their format string and arguments, so that the error a failure was built from stays
  visible.
\<close>

datatype codes = FailedPrecondition | Internal

datatype go_error =
    External string
  | Errorf string "fmt_arg list"
  | StatusErrorf codes string "fmt_arg list"
and fmt_arg =
    ArgString string
  | ArgError go_error

text \<open>
  A call either returns or panics. A Go function of result type \<^verbatim>\<open>(T, error)\<close> that
  returns \<^verbatim>\<open>(nil, err)\<close> is \<open>Inl err\<close>, one that returns \<^verbatim>\<open>(v, nil)\<close> is \<open>Inr v\<close>; a
  function of result type \<^verbatim>\<open>error\<close> returns \<open>Some err\<close> or \<open>None\<close> for \<^verbatim>\<open>nil\<close>.
\<close>

datatype 'a outcome = Returns 'a | Panics

section \<open>The operating system and the standard library\<close>

type_synonym byte = "8 word"

text \<open>
  An open file answers \<^verbatim>\<open>f.Stat()\<close> with a size (or fails), and one \<^verbatim>\<open>f.Read\<close> hands out
  some bytes. \<^verbatim>\<open>Read\<close> copies at most as many bytes as the buffer holds and leaves the rest
  of the buffer as it was.
\<close>

record os_File =
  Stat_Size :: "nat option"
  Read_bytes :: "byte list"

definition Read :: "os_File \<Rightarrow> byte list \<Rightarrow> byte list" where
  "Read f buffer =
     (let got = take (length buffer) (Read_bytes f) in got @ drop (length got) buffer)"

text \<open>
  What \<^verbatim>\<open>filepath.Walk\<close> sees below a root: at each path \<^verbatim>\<open>Lstat\<close> fails, or reports
  something that is not a directory, or reports a directory whose names cannot be read, or
  a directory with its entries by name.
\<close>

datatype dirtree =
    LstatFails go_error
  | NotDir
  | DirUnreadable go_error
  | Dir "(string \<times> dirtree) list"

text \<open>
  The calls the plugin makes into \<^verbatim>\<open>os\<close>, \<^verbatim>\<open>path/filepath\<close> and \<^verbatim>\<open>net/http\<close>.
  \<open>os_Stat\<close> answers with an error or with \<^verbatim>\<open>IsDir()\<close> of the file information.
\<close>

record os_env =
  os_tree :: "string \<Rightarrow> dirtree"
  filepath_Join :: "string \<Rightarrow> string \<Rightarrow> string"
  os_Stat :: "string \<Rightarrow> go_error + bool"
  filepath_Rel :: "string \<Rightarrow> string \<Rightarrow> go_error + string"
  os_Open :: "string \<Rightarrow> go_error + os_File"
  http_DetectContentType :: "byte list \<Rightarrow> string"

text \<open>
  A \<^verbatim>\<open>WalkFunc\<close> receives the path, the \<^verbatim>\<open>Lstat\<close> information (here whether it is a
  directory; \<^verbatim>\<open>nil\<close> when \<^verbatim>\<open>Lstat\<close> failed) and the error of reaching the path. The
  callback of \<^verbatim>\<open>deploy\<close> appends to a slice it closes over, so the model threads that slice
  through as state \<open>'s\<close>.

  \<open>walk\<close> follows \<^verbatim>\<open>filepath.Walk\<close> of the Go standard library: \<^verbatim>\<open>Lstat\<close> the path and
  report a failure to the callback; call the callback on a non-directory; on a directory
  read the names, call the callback, and stop with the callback's result when the names
  could not be read or the callback returned an error; otherwise visit the names in order
  and stop at the first error. The sentinels \<^verbatim>\<open>filepath.SkipDir\<close> and \<^verbatim>\<open>filepath.SkipAll\<close>
  are not values of \<open>go_error\<close>: no call the callback of \<^verbatim>\<open>deploy\<close> makes returns them.
\<close>

type_synonym 's WalkFunc =
  "string \<Rightarrow> bool option \<Rightarrow> go_error option \<Rightarrow> 's \<Rightarrow> (go_error option \<times> 's) outcome"

fun walk :: "os_env \<Rightarrow> 's WalkFunc \<Rightarrow> string \<Rightarrow> dirtree \<Rightarrow> 's \<Rightarrow> (go_error option \<times> 's) outcome"
and walk_names ::
  "os_env \<Rightarrow> 's WalkFunc \<Rightarrow> string \<Rightarrow> (string \<times> dirtree) list \<Rightarrow> 's \<Rightarrow>
     (go_error option \<times> 's) outcome"
where
  "walk os fn path (LstatFails err) s = fn path None (Some err) s"
| "walk os fn path NotDir s = fn path (Some False) None s"
| "walk os fn path (DirUnreadable err) s = fn path (Some True) (Some err) s"
| "walk os fn path (Dir names) s =
     (case fn path (Some True) None s of
        Panics \<Rightarrow> Panics
      | Returns (Some err1, s') \<Rightarrow> Returns (Some err1, s')
      | Returns (None, s') \<Rightarrow> walk_names os fn path names s')"
| "walk_names os fn path [] s = Returns (None, s)"
| "walk_names os fn path ((name, t) # rest) s =
     (case walk os fn (filepath_Join os path name) t s of
        Panics \<Rightarrow> Panics
      | Returns (Some err, s') \<Rightarrow> Returns (Some err, s')
      | Returns (None, s') \<Rightarrow> walk_names os fn path rest s')"

definition Walk :: "os_env \<Rightarrow> string \<Rightarrow> 's WalkFunc \<Rightarrow> 's \<Rightarrow> (go_error option \<times> 's) outcome" where
  "Walk os root fn s = walk os fn root (os_tree os root) s"

section \<open>Configuration structs and ConfigSet\<close>

record DeployConfig =
  Region :: string
  BucketName :: string

record RegistryConfig =
  Name :: string
  Version :: string

text \<open>The configuration of the Docker-based builder.\<close>

record BuildConfig =
  Source :: string
  OutputName :: string
  Dockerfile :: string

text \<open>
  A second builder file in the repository (the scaffold the Docker-based builder was
  written over) declares its own \<^verbatim>\<open>BuildConfig\<close> and \<^verbatim>\<open>ConfigSet\<close>.
\<close>

record scaffold_BuildConfig =
  OutputName :: string
  Source :: string

text \<open>
  The host hands \<^verbatim>\<open>ConfigSet\<close> an \<^verbatim>\<open>interface{}\<close>. Its dynamic value is the pointer that
  \<^verbatim>\<open>Config()\<close> returned (the address of the component's own config field, so never nil),
  or a value of some other type, on which the type assertion fails.
\<close>

datatype config_value =
    DeployConfigPtr DeployConfig
  | RegistryConfigPtr RegistryConfig
  | BuildConfigPtr BuildConfig
  | ScaffoldBuildConfigPtr scaffold_BuildConfig
  | OtherValue

fun Platform_ConfigSet :: "config_value \<Rightarrow> go_error option" where
  "Platform_ConfigSet (DeployConfigPtr c) =
     (if Region c = '''' then
        Some (Errorf ''region must be set to a valid AWS region'' [])
      else if BucketName c = '''' then
        Some (Errorf ''bucket_name must be set to a valid S3 bucket'' [])
      else None)"
| "Platform_ConfigSet _ = Some (Errorf ''expected *DeployConfig as parameter'' [])"

fun Registry_ConfigSet :: "config_value \<Rightarrow> go_error option" where
  "Registry_ConfigSet (RegistryConfigPtr c) =
     (if Name c = '''' then
        Some (Errorf ''name must be set to a valid directory'' [])
      else None)"
| "Registry_ConfigSet _ = Some (Errorf ''expected *RegisterConfig as parameter'' [])"

fun Builder_ConfigSet :: "config_value \<Rightarrow> go_error option" where
  "Builder_ConfigSet (BuildConfigPtr _) = None"
| "Builder_ConfigSet _ = Some (Errorf ''expected *BuildConfig as parameter'' [])"

fun scaffold_Builder_ConfigSet :: "os_env \<Rightarrow> config_value \<Rightarrow> go_error option" where
  "scaffold_Builder_ConfigSet os (ScaffoldBuildConfigPtr c) =
     (if scaffold_BuildConfig.OutputName c = '''' then
        Some (Errorf ''output_name must be valid'' [])
      else
        (case os_Stat os (scaffold_BuildConfig.Source c) of
           Inl err \<Rightarrow> Some (Errorf ''source must be valid directory'' [])
         | Inr _ \<Rightarrow> None))"
| "scaffold_Builder_ConfigSet os _ = Some (Errorf ''expected *BuildConfig as parameter'' [])"

section \<open>Registry.push\<close>

text \<open>
  The artifact types \<^verbatim>\<open>builder.Zip\<close> and \<^verbatim>\<open>registry.Zip\<close> are generated from protocol
  buffer files that are not part of the sources; the code reads and writes one field of
  each, \<^verbatim>\<open>Path\<close>. The calls on the terminal UI return no error; they are recorded.
\<close>

record builder_Zip =
  Path :: string

record registry_Zip =
  Path :: string

datatype ui_call =
    Status_Update string
  | Status_Close

definition push :: "builder_Zip \<Rightarrow> (go_error + registry_Zip) \<times> ui_call list" where
  "push binary =
     (let deferred = [Status_Close];
          t = [Status_Update ''Pushing binary to registry'']
      in (Inr \<lparr>registry_Zip.Path = builder_Zip.Path binary\<rparr>, t @ deferred))"

section \<open>Platform.deploy\<close>

record UploadInput =
  Key :: string
  Bucket :: string
  Body :: "byte list"
  ACL :: string
  ContentType :: string

record BatchUploadObject =
  Object :: UploadInput

text \<open>The two calls into the AWS SDK that can fail.\<close>

record aws_env =
  session_NewSession :: "string \<Rightarrow> go_error option"
  UploadWithIterator :: "BatchUploadObject list \<Rightarrow> go_error option"

datatype deploy_call =
    UI ui_call
  | Call_NewSession string
  | Call_NewUploader
  | Call_UploadWithIterator "BatchUploadObject list"

record Platform =
  config :: DeployConfig

datatype Deployment = Deployment

text \<open>
  The function literal handed to \<^verbatim>\<open>filepath.Walk\<close>. \<^verbatim>\<open>fileInfo, _ := f.Stat()\<close> drops the
  error; when \<^verbatim>\<open>Stat\<close> fails \<^verbatim>\<open>fileInfo\<close> is nil and \<^verbatim>\<open>fileInfo.Size()\<close> panics. The
  result of \<^verbatim>\<open>f.Read(buffer)\<close> is dropped as well: the buffer is uploaded as \<^verbatim>\<open>Read\<close> left
  it.
\<close>

definition deploy_walkFn ::
  "Platform \<Rightarrow> os_env \<Rightarrow> registry_Zip \<Rightarrow> BatchUploadObject list WalkFunc" where
  "deploy_walkFn b os zip' path info err objects =
     (case err of
        Some e \<Rightarrow> Returns (Some e, objects)
      | None \<Rightarrow>
     (case os_Stat os path of
        Inl e \<Rightarrow> Returns (Some e, objects)
      | Inr isDir \<Rightarrow>
     if isDir then Returns (None, objects)
     else
     (case filepath_Rel os (registry_Zip.Path zip') path of
        Inl e \<Rightarrow> Returns (Some e, objects)
      | Inr relativePath \<Rightarrow>
     (case os_Open os path of
        Inl e \<Rightarrow>
          Returns (Some (Errorf ''failed to open file %q, %v'' [ArgString path, ArgError e]),
                   objects)
      | Inr f \<Rightarrow>
     (case Stat_Size f of
        None \<Rightarrow> Panics
      | Some size' \<Rightarrow>
          let buffer = Read f (replicate size' 0)
          in Returns (None,
               objects @
               [\<lparr>Object = \<lparr>Key = relativePath,
                            Bucket = BucketName (Platform.config b),
                            Body = buffer,
                            ACL = ''public-read'',
                            ContentType = http_DetectContentType os buffer\<rparr>\<rparr>]))))))"

text \<open>
  \<^verbatim>\<open>deploy\<close> returns its outcome and the calls it made. \<^verbatim>\<open>u.Close()\<close> is deferred, so it is
  the last call on every path, a panic included. \<^verbatim>\<open>session.Must\<close> panics when the session
  cannot be created.
\<close>

definition deploy ::
  "Platform \<Rightarrow> aws_env \<Rightarrow> os_env \<Rightarrow> registry_Zip \<Rightarrow>
     (go_error + Deployment) outcome \<times> deploy_call list" where
  "deploy b aws os zip' =
     (let deferred = [UI Status_Close];
          t1 = [UI (Status_Update ''Deploy application''),
                Call_NewSession (Region (Platform.config b))]
      in
      case session_NewSession aws (Region (Platform.config b)) of
        Some err \<Rightarrow> (Panics, t1 @ deferred)
      | None \<Rightarrow>
     (let t2 = t1 @ [Call_NewUploader]
      in
      case Walk os (registry_Zip.Path zip') (deploy_walkFn b os zip') [] of
        Panics \<Rightarrow> (Panics, t2 @ deferred)
      | Returns (Some err, objects) \<Rightarrow> (Returns (Inl err), t2 @ deferred)
      | Returns (None, objects) \<Rightarrow>
     (let t3 = t2 @ [Call_UploadWithIterator objects]
      in
      case UploadWithIterator aws objects of
        Some err \<Rightarrow> (Returns (Inl err), t3 @ deferred)
      | None \<Rightarrow>
          (Returns (Inr Deployment),
           t3 @ [UI (Status_Update ''Application deployed'')] @ deferred))))"

text \<open>The collections handed to the batch uploader, one per call, in call order.\<close>

fun upload_calls :: "deploy_call list \<Rightarrow> BatchUploadObject list list" where
  "upload_calls [] = []"
| "upload_calls (Call_UploadWithIterator objects # t) = objects # upload_calls t"
| "upload_calls (_ # t) = upload_calls t"

text \<open>
  The paths of a tree in the order \<^verbatim>\<open>filepath.Walk\<close> reaches them, and among them the
  files found: the paths at which \<^verbatim>\<open>os.Stat\<close> reports something that is not a directory.
\<close>

fun tree_paths :: "os_env \<Rightarrow> string \<Rightarrow> dirtree \<Rightarrow> string list"
and names_paths :: "os_env \<Rightarrow> string \<Rightarrow> (string \<times> dirtree) list \<Rightarrow> string list"
where
  "tree_paths os path (Dir names) = path # names_paths os path names"
| "tree_paths os path (LstatFails err) = [path]"
| "tree_paths os path NotDir = [path]"
| "tree_paths os path (DirUnreadable err) = [path]"
| "names_paths os path [] = []"
| "names_paths os path ((name, t) # rest) =
     tree_paths os (filepath_Join os path name) t @ names_paths os path rest"

definition files_found :: "os_env \<Rightarrow> string \<Rightarrow> string list" where
  "files_found os root =
     filter (\<lambda>p. os_Stat os p = Inr False) (tree_paths os root (os_tree os root))"

text \<open>
  The paths among \<open>ps\<close> at which \<^verbatim>\<open>os.Stat\<close> reports something that is not a directory.
\<close>

definition found :: "os_env \<Rightarrow> string list \<Rightarrow> string list" where
  "found os ps = filter (\<lambda>p. os_Stat os p = Inr False) ps"

text \<open>
  What the callback leaves in its buffer for the file at a path: a buffer of the size
  \<^verbatim>\<open>f.Stat()\<close> reports, after one \<^verbatim>\<open>f.Read\<close>.
\<close>

definition file_buffer :: "os_env \<Rightarrow> string \<Rightarrow> byte list option" where
  "file_buffer os p =
     (case os_Open os p of
        Inl err \<Rightarrow> None
      | Inr f \<Rightarrow>
          (case Stat_Size f of
             None \<Rightarrow> None
           | Some n \<Rightarrow> Some (Read f (replicate n 0))))"

text \<open>
  An upload object is keyed for a path when its key is the path relative to \<^verbatim>\<open>zip.Path\<close>
  and its bucket is the configured one; it has the content of a path when its body is the
  buffer read from that file, its content type is detected from that body, and its ACL is
  \<^verbatim>\<open>public-read\<close>.
\<close>

definition keyed_for ::
  "Platform \<Rightarrow> os_env \<Rightarrow> registry_Zip \<Rightarrow> string \<Rightarrow> BatchUploadObject \<Rightarrow> bool" where
  "keyed_for b os zip' p obj \<longleftrightarrow>
     filepath_Rel os (registry_Zip.Path zip') p = Inr (Key (Object obj)) \<and>
     Bucket (Object obj) = BucketName (Platform.config b)"

definition content_for :: "os_env \<Rightarrow> string \<Rightarrow> BatchUploadObject \<Rightarrow> bool" where
  "content_for os p obj \<longleftrightarrow>
     ACL (Object obj) = ''public-read'' \<and>
     file_buffer os p = Some (Body (Object obj)) \<and>
     ContentType (Object obj) = http_DetectContentType os (Body (Object obj))"

text \<open>
  A callback that, whenever it returns no error, was given no error and appended to the
  slice objects related by \<open>Q\<close> to the path when it is a file found, and nothing
  otherwise.
\<close>

definition walkFn_spec :: "os_env \<Rightarrow> (string \<Rightarrow> 'o \<Rightarrow> bool) \<Rightarrow> 'o list WalkFunc \<Rightarrow> bool" where
  "walkFn_spec os Q fn \<longleftrightarrow>
     (\<forall>path info err s s'. fn path info err s = Returns (None, s') \<longrightarrow>
        err = None \<and> (\<exists>new. s' = s @ new \<and> list_all2 Q (found os [path]) new))"

subsection \<open>A deployment to run\<close>

text \<open>
  A directory \<^verbatim>\<open>/tmp/out\<close> with \<^verbatim>\<open>css/site.css\<close> and \<^verbatim>\<open>index.html\<close>, each two bytes long,
  a bucket, and an AWS that accepts every call; the same directory with a style sheet
  that \<^verbatim>\<open>os.Stat\<close> may not look at; an AWS that refuses the upload, and one without
  credentials for a session.
\<close>

definition example_os :: os_env where
  "example_os =
     \<lparr>os_tree = (\<lambda>root. Dir [(''css'', Dir [(''site.css'', NotDir)]), (''index.html'', NotDir)]),
      filepath_Join = (\<lambda>dir name. dir @ ''/'' @ name),
      os_Stat = (\<lambda>p. Inr (p = ''/tmp/out'' \<or> p = ''/tmp/out/css'')),
      filepath_Rel = (\<lambda>base targ. Inr (drop (length base + 1) targ)),
      os_Open = (\<lambda>p. Inr \<lparr>Stat_Size = Some 2, Read_bytes = [104, 105]\<rparr>),
      http_DetectContentType = (\<lambda>data. ''text/plain; charset=utf-8'')\<rparr>"

definition example_os_denied :: os_env where
  "example_os_denied =
     example_os\<lparr>os_Stat := (\<lambda>p. if p = ''/tmp/out/css/site.css''
                                 then Inl (External ''stat /tmp/out/css/site.css: permission denied'')
                                 else os_Stat example_os p)\<rparr>"

definition example_aws :: aws_env where
  "example_aws = \<lparr>session_NewSession = (\<lambda>region. None), UploadWithIterator = (\<lambda>objects. None)\<rparr>"



definition example_Platform :: Platform where
  "example_Platform = \<lparr>Platform.config = \<lparr>Region = ''eu-west-1'', BucketName = ''assets''\<rparr>\<rparr>"

definition example_Zip :: registry_Zip where
  "example_Zip = \<lparr>registry_Zip.Path = ''/tmp/out''\<rparr>"

definition example_object :: "string \<Rightarrow> BatchUploadObject" where
  "example_object k =
     \<lparr>Object = \<lparr>Key = k, Bucket = ''assets'', Body = [104, 105], ACL = ''public-read'',
                 ContentType = ''text/plain; charset=utf-8''\<rparr>\<rparr>"

section \<open>Builder.build\<close>

text \<open>
  The structs of the Docker SDK and of the host SDK, with the fields the builder sets or
  reads. \<^verbatim>\<open>component.Source\<close> is the application the host asks to build.
\<close>

record component_Source =
  App :: string
  Path :: string

record ImageBuildOptions =
  Dockerfile :: string
  Tags :: "string list"
  Remove :: bool

record container_Config =
  Image :: string
  Cmd :: "string list"
  Tty :: bool

record CopyInfo =
  Path :: string
  Exists :: bool
  IsDir :: bool
  RebaseName :: string

record ContainerRemoveOptions =
  Force :: bool

text \<open>
  The answers of the outside world to the calls of \<^verbatim>\<open>build\<close>. \<open>OutputWriters\<close> answers
  with the standard output writer: \<open>Some fd\<close> when it is an \<^verbatim>\<open>*os.File\<close> with that
  descriptor. \<open>ContainerCreate\<close> answers with the container's ID, \<open>CopyFromContainer\<close> with
  \<^verbatim>\<open>stat.Mode.IsDir()\<close>, \<open>MkdirTemp\<close> with the directory it made.
\<close>

record docker_env =
  NewClientWithOpts :: "go_error option"
  OutputWriters :: "go_error + nat option"
  TarWithOptions :: "string \<Rightarrow> go_error option"
  ImageBuild :: "ImageBuildOptions \<Rightarrow> go_error option"
  DisplayJSONMessagesStream :: "nat \<Rightarrow> go_error option"
  ContainerCreate :: "container_Config \<Rightarrow> go_error + string"
  CopyFromContainer :: "string \<Rightarrow> string \<Rightarrow> go_error + bool"
  MkdirTemp :: "string \<Rightarrow> string \<Rightarrow> go_error + string"
  CopyTo :: "CopyInfo \<Rightarrow> string \<Rightarrow> go_error option"
  ContainerRemove :: "string \<Rightarrow> ContainerRemoveOptions \<Rightarrow> go_error option"

datatype build_call =
    UI_StepGroup
  | StepGroup_Wait
  | StepGroup_Add string
  | Step_Done string
  | Step_Abort string
  | Call_NewClientWithOpts
  | Call_OutputWriters
  | Call_TarWithOptions string
  | Call_ImageBuild ImageBuildOptions
  | Call_Body_Close
  | Call_DisplayJSONMessagesStream nat
  | Call_ContainerCreate container_Config
  | Call_CopyFromContainer string string
  | Call_content_Close
  | Call_MkdirTemp string string
  | Call_CopyTo CopyInfo string
  | Call_ContainerRemove string ContainerRemoveOptions

record Builder =
  config :: BuildConfig

text \<open>
  The values \<^verbatim>\<open>build\<close> computes before it calls out: the Dockerfile name (the configured
  one, or \<^verbatim>\<open>Dockerfile\<close> when none is configured), the image tag, the options of the image
  build and the configuration of the container.
\<close>

definition build_dockerfile :: "Builder \<Rightarrow> string" where
  "build_dockerfile b =
     (if BuildConfig.Dockerfile (Builder.config b) = '''' then ''Dockerfile''
      else BuildConfig.Dockerfile (Builder.config b))"

definition build_imageTag :: "component_Source \<Rightarrow> string" where
  "build_imageTag src = ''waypoint.local/'' @ App src"

definition build_opts :: "string \<Rightarrow> string \<Rightarrow> ImageBuildOptions" where
  "build_opts dockerfile imageTag =
     \<lparr>ImageBuildOptions.Dockerfile = dockerfile, Tags = [imageTag], Remove = True\<rparr>"

definition build_containerConfig :: "string \<Rightarrow> container_Config" where
  "build_containerConfig imageTag = \<lparr>Image = imageTag, Cmd = [''/bin/sh''], Tty = False\<rparr>"

text \<open>
  \<^verbatim>\<open>build\<close> returns its result and the calls it made. A \<^verbatim>\<open>defer\<close> statement pushes its call
  on \<open>deferred\<close> (with the step it names at that moment); every \<^verbatim>\<open>return\<close> runs the
  deferred calls, last pushed first. The results of \<^verbatim>\<open>archive.CopyTo\<close> and of
  \<^verbatim>\<open>dockerClient.ContainerRemove\<close> are not assigned: the calls are made and recorded, and
  the function goes on whatever they return.
\<close>

definition build ::
  "Builder \<Rightarrow> docker_env \<Rightarrow> component_Source \<Rightarrow> (go_error + builder_Zip) \<times> build_call list" where
  "build b docker src =
     (let deferred0 = [StepGroup_Wait];
          t0 = [UI_StepGroup, Call_NewClientWithOpts]
      in
      case NewClientWithOpts docker of
        Some err \<Rightarrow>
          (Inl (StatusErrorf FailedPrecondition ''unable to create Docker client: %s''
                  [ArgError err]),
           t0 @ deferred0)
      | None \<Rightarrow>
     (let dockerfile = build_dockerfile b;
          step1 = ''Building image...'';
          deferred1 = Step_Abort step1 # deferred0;
          t1 = t0 @ [StepGroup_Add step1, Call_OutputWriters]
      in
      case OutputWriters docker of
        Inl err \<Rightarrow> (Inl err, t1 @ deferred1)
      | Inr stdout \<Rightarrow>
     (let imageTag = build_imageTag src;
          opts = build_opts dockerfile imageTag;
          t2 = t1 @ [Call_TarWithOptions (component_Source.Path src)]
      in
      case TarWithOptions docker (component_Source.Path src) of
        Some err \<Rightarrow> (Inl err, t2 @ deferred1)
      | None \<Rightarrow>
     (let t3 = t2 @ [Call_ImageBuild opts]
      in
      case ImageBuild docker opts of
        Some err \<Rightarrow> (Inl err, t3 @ deferred1)
      | None \<Rightarrow>
     (let deferred2 = Call_Body_Close # deferred1;
          termFd = (case stdout of Some fd \<Rightarrow> fd | None \<Rightarrow> 0);
          t4 = t3 @ [Call_DisplayJSONMessagesStream termFd]
      in
      case DisplayJSONMessagesStream docker termFd of
        Some err \<Rightarrow>
          (Inl (StatusErrorf Internal ''unable to stream build logs to the terminal: %s''
                  [ArgError err]),
           t4 @ deferred2)
      | None \<Rightarrow>
     (let step2 = ''Running container...'';
          deferred3 = Step_Abort step2 # deferred2;
          cfg = build_containerConfig imageTag;
          t5 = t4 @ [Step_Done step1, StepGroup_Add step2, Call_ContainerCreate cfg]
      in
      case ContainerCreate docker cfg of
        Inl err \<Rightarrow>
          (Inl (StatusErrorf FailedPrecondition ''unable to create Docker container: %s''
                  [ArgError err]),
           t5 @ deferred3)
      | Inr ID \<Rightarrow>
     (let step3 = ''Extracing assets...'';
          deferred4 = Step_Abort step3 # deferred3;
          source = BuildConfig.Source (Builder.config b);
          t6 = t5 @ [Step_Done step2, StepGroup_Add step3, Call_CopyFromContainer ID source]
      in
      case CopyFromContainer docker ID source of
        Inl err \<Rightarrow>
          (Inl (StatusErrorf FailedPrecondition
                  ''unable to copy assets from Docker container: %s'' [ArgError err]),
           t6 @ deferred4)
      | Inr statIsDir \<Rightarrow>
     (let deferred5 = Call_content_Close # deferred4;
          srcInfo = \<lparr>CopyInfo.Path = source, Exists = True, IsDir = statIsDir,
                     RebaseName = ''''\<rparr>;
          t7 = t6 @ [Call_MkdirTemp '''' ''waypoint-plugin-s3'']
      in
      case MkdirTemp docker '''' ''waypoint-plugin-s3'' of
        Inl err \<Rightarrow>
          (Inl (StatusErrorf FailedPrecondition ''unable to create tmp directory: %s''
                  [ArgError err]),
           t7 @ deferred5)
      | Inr destDir \<Rightarrow>
     (let step4 = ''Shutting down container...'';
          deferred6 = Step_Abort step4 # deferred5;
          t8 = t7 @ [Call_CopyTo srcInfo destDir,
                     Step_Done step3,
                     StepGroup_Add step4,
                     Call_ContainerRemove ID \<lparr>Force = True\<rparr>,
                     Step_Done step4]
      in (Inr \<lparr>builder_Zip.Path = destDir\<rparr>, t8 @ deferred6))))))))))"


text \<open>
  The error the outside world answered a recorded call with, if it answered with one.
  The terminal UI's step calls and the two \<^verbatim>\<open>Close\<close> calls give \<^verbatim>\<open>build\<close> no error.
\<close>

fun failure :: "docker_env \<Rightarrow> build_call \<Rightarrow> go_error option" where
  "failure docker Call_NewClientWithOpts = NewClientWithOpts docker"
| "failure docker Call_OutputWriters =
     (case OutputWriters docker of Inl err \<Rightarrow> Some err | Inr _ \<Rightarrow> None)"
| "failure docker (Call_TarWithOptions p) = TarWithOptions docker p"
| "failure docker (Call_ImageBuild opts) = ImageBuild docker opts"
| "failure docker (Call_DisplayJSONMessagesStream termFd) =
     DisplayJSONMessagesStream docker termFd"
| "failure docker (Call_ContainerCreate cfg) =
     (case ContainerCreate docker cfg of Inl err \<Rightarrow> Some err | Inr _ \<Rightarrow> None)"
| "failure docker (Call_CopyFromContainer ID source) =
     (case CopyFromContainer docker ID source of Inl err \<Rightarrow> Some err | Inr _ \<Rightarrow> None)"
| "failure docker (Call_MkdirTemp dir pattern) =
     (case MkdirTemp docker dir pattern of Inl err \<Rightarrow> Some err | Inr _ \<Rightarrow> None)"
| "failure docker (Call_CopyTo srcInfo destDir) = CopyTo docker srcInfo destDir"
| "failure docker (Call_ContainerRemove ID opts) = ContainerRemove docker ID opts"
| "failure docker _ = None"






subsection \<open>Builds to run\<close>

text \<open>
  A Docker that answers every call, a builder with no Dockerfile configured and one with
  \<^verbatim>\<open>Dockerfile.prod\<close>; then a daemon that cannot be reached when the image is built, a
  temporary directory on a full disk, and an environment from which no client can be made.
\<close>

definition example_docker :: docker_env where
  "example_docker =
     \<lparr>NewClientWithOpts = None,
      OutputWriters = Inr (Some 1),
      TarWithOptions = (\<lambda>srcPath. None),
      ImageBuild = (\<lambda>opts. None),
      DisplayJSONMessagesStream = (\<lambda>termFd. None),
      ContainerCreate = (\<lambda>cfg. Inr ''c0ffee''),
      CopyFromContainer = (\<lambda>ID source. Inr True),
      MkdirTemp = (\<lambda>dir pattern. Inr ''/tmp/waypoint-plugin-s3123''),
      CopyTo = (\<lambda>srcInfo destDir. None),
      ContainerRemove = (\<lambda>ID opts. None)\<rparr>"


definition example_docker_disk_full :: docker_env where
  "example_docker_disk_full =
     example_docker\<lparr>CopyTo := (\<lambda>srcInfo destDir. Some (External ''no space left on device''))\<rparr>"

definition example_Builder :: Builder where
  "example_Builder =
     \<lparr>Builder.config =
        \<lparr>BuildConfig.Source = ''/app/dist'', BuildConfig.OutputName = ''site'',
         BuildConfig.Dockerfile = ''''\<rparr>\<rparr>"

definition example_Builder_prod :: Builder where
  "example_Builder_prod =
     \<lparr>Builder.config =
        \<lparr>BuildConfig.Source = ''/app/dist'', BuildConfig.OutputName = ''site'',
         BuildConfig.Dockerfile = ''Dockerfile.prod''\<rparr>\<rparr>"

definition example_Source :: component_Source where
  "example_Source = \<lparr>App = ''web'', component_Source.Path = ''/src/web''\<rparr>"


section \<open>Platform.ConfigSet\<close>

text \<open>
  C6. For every \<^verbatim>\<open>*DeployConfig\<close> passed to \<^verbatim>\<open>Platform.ConfigSet\<close>, the call returns an
  error if and only if the Region field is empty or the BucketName field is empty, the
  error names the first empty field, and when both fields are non-empty the call returns
  nil.
\<close>

theorem Platform_ConfigSet_iff:
  "(Platform_ConfigSet (DeployConfigPtr c) \<noteq> None \<longleftrightarrow> Region c = '''' \<or> BucketName c = '''') \<and>
   (Region c = '''' \<longrightarrow>
      Platform_ConfigSet (DeployConfigPtr c) =
        Some (Errorf ''region must be set to a valid AWS region'' [])) \<and>
   (Region c \<noteq> '''' \<and> BucketName c = '''' \<longrightarrow>
      Platform_ConfigSet (DeployConfigPtr c) =
        Some (Errorf ''bucket_name must be set to a valid S3 bucket'' [])) \<and>
   (Region c \<noteq> '''' \<and> BucketName c \<noteq> '''' \<longrightarrow>
      Platform_ConfigSet (DeployConfigPtr c) = None)"
  by simp

theorem Platform_ConfigSet_iff_witness:
  "Platform_ConfigSet (DeployConfigPtr \<lparr>Region = ''eu-west-1'', BucketName = ''''\<rparr>) =
     Some (Errorf ''bucket_name must be set to a valid S3 bucket'' []) \<and>
   Platform_ConfigSet (DeployConfigPtr \<lparr>Region = '''', BucketName = ''assets''\<rparr>) =
     Some (Errorf ''region must be set to a valid AWS region'' []) \<and>
   Platform_ConfigSet (DeployConfigPtr \<lparr>Region = ''eu-west-1'', BucketName = ''assets''\<rparr>) = None"
  using Platform_ConfigSet_iff [of "\<lparr>Region = ''eu-west-1'', BucketName = ''''\<rparr>"]
        Platform_ConfigSet_iff [of "\<lparr>Region = '''', BucketName = ''assets''\<rparr>"]
        Platform_ConfigSet_iff [of "\<lparr>Region = ''eu-west-1'', BucketName = ''assets''\<rparr>"]
  by simp

section \<open>Registry.push\<close>

text \<open>
  C7. For every input artifact, \<^verbatim>\<open>Registry.push\<close> returns without error a result struct
  holding a single filesystem path, and that path is the path carried by the input
  artifact.
\<close>

theorem push_identity:
  "fst (push binary) = Inr \<lparr>registry_Zip.Path = builder_Zip.Path binary\<rparr>"
  by (simp add: push_def)

section \<open>Platform.deploy\<close>

subsection \<open>The walk\<close>

lemma found_append: "found os (ps @ qs) = found os ps @ found os qs"
  by (simp add: found_def)

lemma walkFn_specD:
  "walkFn_spec os Q fn \<Longrightarrow> fn path info err s = Returns (None, s') \<Longrightarrow>
     err = None \<and> (\<exists>new. s' = s @ new \<and> list_all2 Q (found os [path]) new)"
  unfolding walkFn_spec_def by blast

text \<open>
  A walk that ends without error has called the callback on every path of the tree, so
  the slice has grown by the objects of the files found, in walk order.
\<close>

lemma walk_ok:
  fixes fn :: "'o list WalkFunc"
  shows "walk os fn path t s = Returns (None, s') \<Longrightarrow> walkFn_spec os Q fn \<Longrightarrow>
           \<exists>new. s' = s @ new \<and> list_all2 Q (found os (tree_paths os path t)) new"
    and "walk_names os fn path names s = Returns (None, s') \<Longrightarrow> walkFn_spec os Q fn \<Longrightarrow>
           \<exists>new. s' = s @ new \<and> list_all2 Q (found os (names_paths os path names)) new"
proof (induction os fn path t s and os fn path names s arbitrary: s' and s'
    rule: walk_walk_names.induct)
  case (1 os fn path err s)
  from 1(1) walkFn_specD[OF 1(2), of path None "Some err" s s'] show ?case by simp
next
  case (2 os fn path s)
  from 2(1) walkFn_specD[OF 2(2), of path "Some False" None s s'] show ?case by simp
next
  case (3 os fn path err s)
  from 3(1) walkFn_specD[OF 3(2), of path "Some True" "Some err" s s'] show ?case by simp
next
  case (4 os fn path names s)
  from 4(2) obtain s1 where a: "fn path (Some True) None s = Returns (None, s1)"
    and b: "walk_names os fn path names s1 = Returns (None, s')"
    by (auto split: outcome.splits option.splits)
  from walkFn_specD[OF 4(3) a] obtain new1 where
    n1: "s1 = s @ new1" "list_all2 Q (found os [path]) new1"
    by blast
  from 4(1)[OF a refl refl b 4(3)] obtain new2 where
    n2: "s' = s1 @ new2" "list_all2 Q (found os (names_paths os path names)) new2"
    by blast
  have "list_all2 Q (found os [path] @ found os (names_paths os path names)) (new1 @ new2)"
    using n1(2) n2(2) by (rule list_all2_appendI)
  moreover have "found os (tree_paths os path (Dir names)) =
      found os [path] @ found os (names_paths os path names)"
    by (simp add: found_def)
  ultimately show ?case using n1(1) n2(1) by auto
next
  case (5 os fn path s)
  then show ?case by (simp add: found_def)
next
  case (6 os fn path name t rest s)
  from 6(3) obtain s1 where a: "walk os fn (filepath_Join os path name) t s = Returns (None, s1)"
    and b: "walk_names os fn path rest s1 = Returns (None, s')"
    by (auto split: outcome.splits option.splits)
  from 6(1)[OF a 6(4)] obtain new1 where
    n1: "s1 = s @ new1" "list_all2 Q (found os (tree_paths os (filepath_Join os path name) t)) new1"
    by blast
  from 6(2)[OF a refl refl b 6(4)] obtain new2 where
    n2: "s' = s1 @ new2" "list_all2 Q (found os (names_paths os path rest)) new2"
    by blast
  have "list_all2 Q (found os (tree_paths os (filepath_Join os path name) t) @
          found os (names_paths os path rest)) (new1 @ new2)"
    using n1(2) n2(2) by (rule list_all2_appendI)
  then show ?case using n1(1) n2(1) by (simp add: found_append)
qed

text \<open>The error of a walk is the error the callback returned at a path of the tree.\<close>

lemma walk_error_source:
  fixes fn :: "'s WalkFunc"
  shows "walk os fn path t s = Returns (Some err, s') \<Longrightarrow>
           \<exists>p\<in>set (tree_paths os path t). \<exists>info e s0. fn p info e s0 = Returns (Some err, s')"
    and "walk_names os fn path names s = Returns (Some err, s') \<Longrightarrow>
           \<exists>p\<in>set (names_paths os path names).
              \<exists>info e s0. fn p info e s0 = Returns (Some err, s')"
proof (induction os fn path t s and os fn path names s rule: walk_walk_names.induct)
  case (4 os fn path names s)
  then show ?case
    by (fastforce split: outcome.splits option.splits)
next
  case (6 os fn path name t rest s)
  then show ?case
    by (fastforce split: outcome.splits option.splits)
qed auto

lemma walkFn_ok:
  assumes "deploy_walkFn b os zip' path info err objs = Returns (None, objs')"
  shows "err = None \<and>
    (\<exists>new. objs' = objs @ new \<and>
       list_all2 (\<lambda>p obj. keyed_for b os zip' p obj \<and> content_for os p obj) (found os [path]) new)"
  using assms
  by (auto simp: deploy_walkFn_def found_def keyed_for_def content_for_def file_buffer_def Let_def
      split: option.splits sum.splits if_splits)

lemma deploy_walkFn_spec:
  "walkFn_spec os (\<lambda>p obj. keyed_for b os zip' p obj \<and> content_for os p obj)
     (deploy_walkFn b os zip')"
  unfolding walkFn_spec_def using walkFn_ok by blast

lemma Walk_objects:
  assumes "Walk os (registry_Zip.Path zip') (deploy_walkFn b os zip') [] = Returns (None, objects)"
  shows "list_all2 (\<lambda>p obj. keyed_for b os zip' p obj \<and> content_for os p obj)
           (files_found os (registry_Zip.Path zip')) objects"
  using walk_ok(1)[OF assms[unfolded Walk_def] deploy_walkFn_spec]
  by (simp add: files_found_def found_def)

lemma upload_calls_deploy:
  "upload_calls (snd (deploy b aws os zip')) =
     (case session_NewSession aws (Region (Platform.config b)) of
        Some err \<Rightarrow> []
      | None \<Rightarrow>
          (case Walk os (registry_Zip.Path zip') (deploy_walkFn b os zip') [] of
             Returns (None, objects) \<Rightarrow> [objects]
           | _ \<Rightarrow> []))"
  by (simp add: deploy_def Let_def split: option.splits outcome.splits prod.splits)

subsection \<open>The example deployment\<close>

lemma example_session: "session_NewSession example_aws region = None"
  by (simp add: example_aws_def)

lemma example_deploy:
  "deploy example_Platform example_aws example_os example_Zip =
     (Returns (Inr Deployment),
      [UI (Status_Update ''Deploy application''), Call_NewSession ''eu-west-1'', Call_NewUploader,
       Call_UploadWithIterator [example_object ''css/site.css'', example_object ''index.html''],
       UI (Status_Update ''Application deployed''), UI Status_Close])"
  by (simp add: deploy_def Walk_def deploy_walkFn_def example_os_def example_aws_def
      example_Platform_def example_Zip_def example_object_def Read_def Let_def numeral_2_eq_2)

lemma example_files_found:
  "files_found example_os (registry_Zip.Path example_Zip) =
     [''/tmp/out/css/site.css'', ''/tmp/out/index.html'']"
  by (simp add: files_found_def example_os_def example_Zip_def)


lemma example_content:
  "list_all2 (content_for example_os)
     [''/tmp/out/css/site.css'', ''/tmp/out/index.html'']
     [example_object ''css/site.css'', example_object ''index.html'']"
  by (simp add: content_for_def file_buffer_def example_os_def example_object_def Read_def
      numeral_2_eq_2)

lemma example_Walk_denied:
  "Walk example_os_denied (registry_Zip.Path example_Zip)
     (deploy_walkFn example_Platform example_os_denied example_Zip) [] =
   Returns (Some (External ''stat /tmp/out/css/site.css: permission denied''), [])"
  by (simp add: Walk_def deploy_walkFn_def example_os_denied_def example_os_def example_Zip_def)



subsection \<open>One object per file, handed over in one call\<close>



subsection \<open>A failed walk\<close>

text \<open>
  C8. If the directory walk inside \<^verbatim>\<open>Platform.deploy\<close> returns an error, \<^verbatim>\<open>deploy\<close> returns
  exactly that error and the batch uploader is never called; the error is the one the
  callback returned for a path of the tree.
\<close>

theorem deploy_walk_error:
  assumes "session_NewSession aws (Region (Platform.config b)) = None"
      and "Walk os (registry_Zip.Path zip') (deploy_walkFn b os zip') [] =
             Returns (Some err, objects)"
  shows "fst (deploy b aws os zip') = Returns (Inl err) \<and>
         upload_calls (snd (deploy b aws os zip')) = [] \<and>
         (\<exists>p\<in>set (tree_paths os (registry_Zip.Path zip') (os_tree os (registry_Zip.Path zip'))).
            \<exists>info e objs. deploy_walkFn b os zip' p info e objs = Returns (Some err, objects))"
proof (intro conjI)
  show "fst (deploy b aws os zip') = Returns (Inl err)"
    using assms by (simp add: deploy_def Let_def)
  show "upload_calls (snd (deploy b aws os zip')) = []"
    using assms by (simp add: upload_calls_deploy)
  show "\<exists>p\<in>set (tree_paths os (registry_Zip.Path zip') (os_tree os (registry_Zip.Path zip'))).
            \<exists>info e objs. deploy_walkFn b os zip' p info e objs = Returns (Some err, objects)"
    using walk_error_source(1)[OF assms(2)[unfolded Walk_def]] .
qed

theorem deploy_walk_error_witness:
  "session_NewSession example_aws (Region (Platform.config example_Platform)) = None \<and>
   Walk example_os_denied (registry_Zip.Path example_Zip)
     (deploy_walkFn example_Platform example_os_denied example_Zip) [] =
     Returns (Some (External ''stat /tmp/out/css/site.css: permission denied''), []) \<and>
   fst (deploy example_Platform example_aws example_os_denied example_Zip) =
     Returns (Inl (External ''stat /tmp/out/css/site.css: permission denied'')) \<and>
   upload_calls (snd (deploy example_Platform example_aws example_os_denied example_Zip)) = []"
  using deploy_walk_error [OF example_session example_Walk_denied]
  by (simp add: example_session example_Walk_denied)

subsection \<open>ACL and content type\<close>

text \<open>
  C9. Every object that \<^verbatim>\<open>Platform.deploy\<close> queues for upload has the ACL \<^verbatim>\<open>public-read\<close>
  and a ContentType detected from its own body, the buffer read from the file; no object
  is handed to the uploader with another ACL.
\<close>

theorem deploy_public_read:
  "\<forall>objects \<in> set (upload_calls (snd (deploy b aws os zip'))).
     list_all2 (content_for os) (files_found os (registry_Zip.Path zip')) objects \<and>
     (\<forall>obj \<in> set objects. ACL (Object obj) = ''public-read'')"
proof (intro ballI conjI)
  fix objects
  assume "objects \<in> set (upload_calls (snd (deploy b aws os zip')))"
  then have "Walk os (registry_Zip.Path zip') (deploy_walkFn b os zip') [] = Returns (None, objects)"
    by (simp add: upload_calls_deploy split: option.splits outcome.splits prod.splits)
  from Walk_objects[OF this]
  show c: "list_all2 (content_for os) (files_found os (registry_Zip.Path zip')) objects"
    by (rule list_all2_mono) simp
  fix obj
  assume "obj \<in> set objects"
  with c obtain p where "content_for os p obj"
    by (auto simp: list_all2_conv_all_nth in_set_conv_nth)
  then show "ACL (Object obj) = ''public-read''"
    by (simp add: content_for_def)
qed

theorem deploy_public_read_witness:
  "upload_calls (snd (deploy example_Platform example_aws example_os example_Zip)) =
     [[example_object ''css/site.css'', example_object ''index.html'']] \<and>
   list_all2 (content_for example_os) (files_found example_os (registry_Zip.Path example_Zip))
     [example_object ''css/site.css'', example_object ''index.html''] \<and>
   ACL (Object (example_object ''css/site.css'')) = ''public-read'' \<and>
   ACL (Object (example_object ''index.html'')) = ''public-read''"
  using deploy_public_read [of example_Platform example_aws example_os example_Zip]
    example_content
  by (simp add: example_deploy example_files_found)

section \<open>Builder.build\<close>

subsection \<open>The runs of build\<close>

text \<open>
  A run of \<^verbatim>\<open>build\<close> ends at the first tested call that fails, or goes through all of
  them.
\<close>

lemma build_cases [case_names client writers tar image stream create copy mkdir success]:
  obtains
    err where "NewClientWithOpts docker = Some err"
  | err where "NewClientWithOpts docker = None" "OutputWriters docker = Inl err"
  | stdout err where "NewClientWithOpts docker = None" "OutputWriters docker = Inr stdout"
      "TarWithOptions docker (component_Source.Path src) = Some err"
  | stdout err where "NewClientWithOpts docker = None" "OutputWriters docker = Inr stdout"
      "TarWithOptions docker (component_Source.Path src) = None"
      "ImageBuild docker (build_opts (build_dockerfile b) (build_imageTag src)) = Some err"
  | stdout err where "NewClientWithOpts docker = None" "OutputWriters docker = Inr stdout"
      "TarWithOptions docker (component_Source.Path src) = None"
      "ImageBuild docker (build_opts (build_dockerfile b) (build_imageTag src)) = None"
      "DisplayJSONMessagesStream docker (case stdout of Some fd \<Rightarrow> fd | None \<Rightarrow> 0) = Some err"
  | stdout err where "NewClientWithOpts docker = None" "OutputWriters docker = Inr stdout"
      "TarWithOptions docker (component_Source.Path src) = None"
      "ImageBuild docker (build_opts (build_dockerfile b) (build_imageTag src)) = None"
      "DisplayJSONMessagesStream docker (case stdout of Some fd \<Rightarrow> fd | None \<Rightarrow> 0) = None"
      "ContainerCreate docker (build_containerConfig (build_imageTag src)) = Inl err"
  | stdout ID err where "NewClientWithOpts docker = None" "OutputWriters docker = Inr stdout"
      "TarWithOptions docker (component_Source.Path src) = None"
      "ImageBuild docker (build_opts (build_dockerfile b) (build_imageTag src)) = None"
      "DisplayJSONMessagesStream docker (case stdout of Some fd \<Rightarrow> fd | None \<Rightarrow> 0) = None"
      "ContainerCreate docker (build_containerConfig (build_imageTag src)) = Inr ID"
      "CopyFromContainer docker ID (BuildConfig.Source (Builder.config b)) = Inl err"
  | stdout ID statIsDir err where "NewClientWithOpts docker = None"
      "OutputWriters docker = Inr stdout"
      "TarWithOptions docker (component_Source.Path src) = None"
      "ImageBuild docker (build_opts (build_dockerfile b) (build_imageTag src)) = None"
      "DisplayJSONMessagesStream docker (case stdout of Some fd \<Rightarrow> fd | None \<Rightarrow> 0) = None"
      "ContainerCreate docker (build_containerConfig (build_imageTag src)) = Inr ID"
      "CopyFromContainer docker ID (BuildConfig.Source (Builder.config b)) = Inr statIsDir"
      "MkdirTemp docker '''' ''waypoint-plugin-s3'' = Inl err"
  | stdout ID statIsDir destDir where "NewClientWithOpts docker = None"
      "OutputWriters docker = Inr stdout"
      "TarWithOptions docker (component_Source.Path src) = None"
      "ImageBuild docker (build_opts (build_dockerfile b) (build_imageTag src)) = None"
      "DisplayJSONMessagesStream docker (case stdout of Some fd \<Rightarrow> fd | None \<Rightarrow> 0) = None"
      "ContainerCreate docker (build_containerConfig (build_imageTag src)) = Inr ID"
      "CopyFromContainer docker ID (BuildConfig.Source (Builder.config b)) = Inr statIsDir"
      "MkdirTemp docker '''' ''waypoint-plugin-s3'' = Inr destDir"
proof (cases "NewClientWithOpts docker")
  case (Some err)
  then show ?thesis by (rule that(1))
next
  case c1: None
  show ?thesis
  proof (cases "OutputWriters docker")
    case (Inl err)
    with c1 show ?thesis by (rule that(2))
  next
    case c2: (Inr stdout)
    show ?thesis
    proof (cases "TarWithOptions docker (component_Source.Path src)")
      case (Some err)
      with c1 c2 show ?thesis by (rule that(3))
    next
      case c3: None
      show ?thesis
      proof (cases "ImageBuild docker (build_opts (build_dockerfile b) (build_imageTag src))")
        case (Some err)
        with c1 c2 c3 show ?thesis by (rule that(4))
      next
        case c4: None
        show ?thesis
        proof (cases "DisplayJSONMessagesStream docker (case stdout of Some fd \<Rightarrow> fd | None \<Rightarrow> 0)")
          case (Some err)
          with c1 c2 c3 c4 show ?thesis by (rule that(5))
        next
          case c5: None
          show ?thesis
          proof (cases "ContainerCreate docker (build_containerConfig (build_imageTag src))")
            case (Inl err)
            with c1 c2 c3 c4 c5 show ?thesis by (rule that(6))
          next
            case c6: (Inr ID)
            show ?thesis
            proof (cases "CopyFromContainer docker ID (BuildConfig.Source (Builder.config b))")
              case (Inl err)
              with c1 c2 c3 c4 c5 c6 show ?thesis by (rule that(7))
            next
              case c7: (Inr statIsDir)
              show ?thesis
              proof (cases "MkdirTemp docker '''' ''waypoint-plugin-s3''")
                case (Inl err)
                with c1 c2 c3 c4 c5 c6 c7 show ?thesis by (rule that(8))
              next
                case (Inr destDir)
                with c1 c2 c3 c4 c5 c6 c7 show ?thesis by (rule that(9))
              qed
            qed
          qed
        qed
      qed
    qed
  qed
qed

lemmas example_build_defs =
  build_def Let_def example_docker_def example_Builder_def example_Source_def
  build_dockerfile_def build_imageTag_def build_opts_def build_containerConfig_def

lemma example_build:
  "build example_Builder example_docker example_Source =
     (Inr \<lparr>builder_Zip.Path = ''/tmp/waypoint-plugin-s3123''\<rparr>,
      [UI_StepGroup,
       Call_NewClientWithOpts,
       StepGroup_Add ''Building image...'',
       Call_OutputWriters,
       Call_TarWithOptions ''/src/web'',
       Call_ImageBuild
         \<lparr>ImageBuildOptions.Dockerfile = ''Dockerfile'', Tags = [''waypoint.local/web''],
          Remove = True\<rparr>,
       Call_DisplayJSONMessagesStream 1,
       Step_Done ''Building image...'',
       StepGroup_Add ''Running container...'',
       Call_ContainerCreate \<lparr>Image = ''waypoint.local/web'', Cmd = [''/bin/sh''], Tty = False\<rparr>,
       Step_Done ''Running container...'',
       StepGroup_Add ''Extracing assets...'',
       Call_CopyFromContainer ''c0ffee'' ''/app/dist'',
       Call_MkdirTemp '''' ''waypoint-plugin-s3'',
       Call_CopyTo
         \<lparr>CopyInfo.Path = ''/app/dist'', Exists = True, IsDir = True, RebaseName = ''''\<rparr>
         ''/tmp/waypoint-plugin-s3123'',
       Step_Done ''Extracing assets...'',
       StepGroup_Add ''Shutting down container...'',
       Call_ContainerRemove ''c0ffee'' \<lparr>Force = True\<rparr>,
       Step_Done ''Shutting down container...'',
       Step_Abort ''Shutting down container...'',
       Call_content_Close,
       Step_Abort ''Extracing assets...'',
       Step_Abort ''Running container...'',
       Call_Body_Close,
       Step_Abort ''Building image...'',
       StepGroup_Wait])"
  by (simp add: example_build_defs)



lemma build_ImageBuild:
  "Call_ImageBuild opts \<in> set (snd (build b docker src)) \<Longrightarrow>
     opts = build_opts (build_dockerfile b) (build_imageTag src)"
  by (cases rule: build_cases[where b=b and docker=docker and src=src])
     (simp_all add: build_def Let_def)




lemma build_ImageBuild_reached:
  "NewClientWithOpts docker = None \<Longrightarrow> OutputWriters docker = Inr w \<Longrightarrow>
   TarWithOptions docker (component_Source.Path src) = None \<Longrightarrow>
   Call_ImageBuild (build_opts (build_dockerfile b) (build_imageTag src))
     \<in> set (snd (build b docker src))"
  by (simp add: build_def Let_def split: option.splits sum.splits)


lemma example_build_prod:
  "Call_ImageBuild
     \<lparr>ImageBuildOptions.Dockerfile = ''Dockerfile.prod'', Tags = [''waypoint.local/web''],
      Remove = True\<rparr>
     \<in> set (snd (build example_Builder_prod example_docker example_Source))"
  by (simp add: build_def Let_def example_docker_def example_Builder_prod_def example_Source_def
      build_dockerfile_def build_imageTag_def build_opts_def build_containerConfig_def)

lemma example_Dockerfile:
  "BuildConfig.Dockerfile (Builder.config example_Builder) = ''''"
  "BuildConfig.Dockerfile (Builder.config example_Builder_prod) = ''Dockerfile.prod''"
  by (simp_all add: example_Builder_def example_Builder_prod_def)

subsection \<open>The order of the Docker calls\<close>



subsection \<open>The Dockerfile\<close>

text \<open>
  C10. When the configured Dockerfile field is the empty string, \<^verbatim>\<open>Builder.build\<close> uses
  the file name \<^verbatim>\<open>Dockerfile\<close> in the image-build options; otherwise it uses the
  configured value unchanged. The image build is reached whenever the client, the output
  writers and the build context are obtained.
\<close>

theorem build_dockerfile_default:
  "(\<forall>opts. Call_ImageBuild opts \<in> set (snd (build b docker src)) \<longrightarrow>
      ImageBuildOptions.Dockerfile opts =
        (if BuildConfig.Dockerfile (Builder.config b) = '''' then ''Dockerfile''
         else BuildConfig.Dockerfile (Builder.config b))) \<and>
   (\<forall>w. NewClientWithOpts docker = None \<and> OutputWriters docker = Inr w \<and>
      TarWithOptions docker (component_Source.Path src) = None \<longrightarrow>
      (\<exists>opts. Call_ImageBuild opts \<in> set (snd (build b docker src))))"
proof (intro conjI allI impI)
  fix opts
  assume "Call_ImageBuild opts \<in> set (snd (build b docker src))"
  from build_ImageBuild[OF this]
  show "ImageBuildOptions.Dockerfile opts =
        (if BuildConfig.Dockerfile (Builder.config b) = '''' then ''Dockerfile''
         else BuildConfig.Dockerfile (Builder.config b))"
    by (simp add: build_opts_def build_dockerfile_def)
next
  fix w
  assume "NewClientWithOpts docker = None \<and> OutputWriters docker = Inr w \<and>
      TarWithOptions docker (component_Source.Path src) = None"
  then show "\<exists>opts. Call_ImageBuild opts \<in> set (snd (build b docker src))"
    using build_ImageBuild_reached by blast
qed

theorem build_dockerfile_default_witness:
  "NewClientWithOpts example_docker = None \<and>
   OutputWriters example_docker = Inr (Some 1) \<and>
   TarWithOptions example_docker (component_Source.Path example_Source) = None \<and>
   BuildConfig.Dockerfile (Builder.config example_Builder) = '''' \<and>
   Call_ImageBuild
     \<lparr>ImageBuildOptions.Dockerfile = ''Dockerfile'', Tags = [''waypoint.local/web''],
      Remove = True\<rparr>
     \<in> set (snd (build example_Builder example_docker example_Source)) \<and>
   BuildConfig.Dockerfile (Builder.config example_Builder_prod) = ''Dockerfile.prod'' \<and>
   Call_ImageBuild
     \<lparr>ImageBuildOptions.Dockerfile = ''Dockerfile.prod'', Tags = [''waypoint.local/web''],
      Remove = True\<rparr>
     \<in> set (snd (build example_Builder_prod example_docker example_Source))"
proof -
  have a: "Call_ImageBuild
       \<lparr>ImageBuildOptions.Dockerfile = ''Dockerfile'', Tags = [''waypoint.local/web''],
        Remove = True\<rparr>
       \<in> set (snd (build example_Builder example_docker example_Source))"
    by (simp add: example_build)
  from build_dockerfile_default [of example_Builder example_docker example_Source,
      THEN conjunct1, rule_format, OF a]
  have "(if BuildConfig.Dockerfile (Builder.config example_Builder) = '''' then ''Dockerfile''
         else BuildConfig.Dockerfile (Builder.config example_Builder)) = ''Dockerfile''"
    by simp
  moreover have "NewClientWithOpts example_docker = None"
    "OutputWriters example_docker = Inr (Some 1)"
    "TarWithOptions example_docker (component_Source.Path example_Source) = None"
    by (simp_all add: example_docker_def)
  ultimately show ?thesis
    using a example_build_prod example_Dockerfile by simp
qed

section \<open>Errors of external calls\<close>




text \<open>
  C4. No action discards the error of a failed SDK call. \<^verbatim>\<open>build\<close> does: the result of
  \<^verbatim>\<open>archive.CopyTo\<close> is not assigned, so when the copy into the temporary directory
  fails the run goes on, and \<^verbatim>\<open>build\<close> returns that directory and no error.
\<close>

theorem build_ignores_CopyTo_error:
  "Call_CopyTo
     \<lparr>CopyInfo.Path = ''/app/dist'', Exists = True, IsDir = True, RebaseName = ''''\<rparr>
     ''/tmp/waypoint-plugin-s3123''
     \<in> set (snd (build example_Builder example_docker_disk_full example_Source)) \<and>
   failure example_docker_disk_full
     (Call_CopyTo
        \<lparr>CopyInfo.Path = ''/app/dist'', Exists = True, IsDir = True, RebaseName = ''''\<rparr>
        ''/tmp/waypoint-plugin-s3123'') =
     Some (External ''no space left on device'') \<and>
   fst (build example_Builder example_docker_disk_full example_Source) =
     Inr \<lparr>builder_Zip.Path = ''/tmp/waypoint-plugin-s3123''\<rparr>"
  by (simp add: build_def Let_def example_docker_disk_full_def example_docker_def
      example_Builder_def example_Source_def build_dockerfile_def build_imageTag_def
      build_opts_def build_containerConfig_def)

section \<open>What ConfigSet validates\<close>

text \<open>
  C5, as the claim states it, fails: it says that every scalar field of every
  configuration struct is validated for non-emptiness. \<^verbatim>\<open>Registry.ConfigSet\<close> accepts an
  empty Version, and the \<^verbatim>\<open>ConfigSet\<close> of the Docker-based builder accepts a
  configuration whose three fields are all empty.
\<close>

theorem ConfigSet_unchecked_fields_counterexample:
  "Version \<lparr>Name = ''web'', Version = ''''\<rparr> = '''' \<and>
   Registry_ConfigSet (RegistryConfigPtr \<lparr>Name = ''web'', Version = ''''\<rparr>) = None \<and>
   BuildConfig.Source
     \<lparr>BuildConfig.Source = '''', BuildConfig.OutputName = '''', BuildConfig.Dockerfile = ''''\<rparr> = '''' \<and>
   Builder_ConfigSet
     (BuildConfigPtr
        \<lparr>BuildConfig.Source = '''', BuildConfig.OutputName = '''', BuildConfig.Dockerfile = ''''\<rparr>) =
     None"
  by simp

text \<open>
  C5, amended. \<^verbatim>\<open>Platform.ConfigSet\<close> rejects a configuration exactly when Region or
  BucketName is empty; \<^verbatim>\<open>Registry.ConfigSet\<close> rejects one exactly when Name is empty and
  does not look at Version; the \<^verbatim>\<open>ConfigSet\<close> of the Docker-based builder rejects no
  \<^verbatim>\<open>*BuildConfig\<close>; the scaffold builder's rejects one exactly when OutputName is empty
  or \<^verbatim>\<open>os.Stat\<close> fails on Source.
\<close>

theorem ConfigSet_validation:
  "(Platform_ConfigSet (DeployConfigPtr d) \<noteq> None \<longleftrightarrow> Region d = '''' \<or> BucketName d = '''') \<and>
   (Registry_ConfigSet (RegistryConfigPtr r) \<noteq> None \<longleftrightarrow> Name r = '''') \<and>
   Builder_ConfigSet (BuildConfigPtr c) = None \<and>
   (scaffold_Builder_ConfigSet os (ScaffoldBuildConfigPtr s) \<noteq> None \<longleftrightarrow>
      scaffold_BuildConfig.OutputName s = '''' \<or>
      (\<exists>err. os_Stat os (scaffold_BuildConfig.Source s) = Inl err))"
  by (auto split: sum.splits)

theorem ConfigSet_validation_witness:
  "Platform_ConfigSet (DeployConfigPtr \<lparr>Region = ''eu-west-1'', BucketName = ''''\<rparr>) \<noteq> None \<and>
   Registry_ConfigSet (RegistryConfigPtr \<lparr>Name = '''', Version = ''1.0''\<rparr>) \<noteq> None \<and>
   Registry_ConfigSet (RegistryConfigPtr \<lparr>Name = ''web'', Version = ''''\<rparr>) = None \<and>
   scaffold_Builder_ConfigSet example_os
     (ScaffoldBuildConfigPtr
        \<lparr>scaffold_BuildConfig.OutputName = '''', scaffold_BuildConfig.Source = ''/tmp/out''\<rparr>) \<noteq> None"
  using ConfigSet_validation [of "\<lparr>Region = ''eu-west-1'', BucketName = ''''\<rparr>"
      "\<lparr>Name = '''', Version = ''1.0''\<rparr>" c example_os
      "\<lparr>scaffold_BuildConfig.OutputName = '''', scaffold_BuildConfig.Source = ''/tmp/out''\<rparr>"]
    ConfigSet_validation [of d "\<lparr>Name = ''web'', Version = ''''\<rparr>" c os s]
  by simp

end
